theory Spec2Isabelle
  imports Main "HOL-Library.Char_ord" "HOL-Library.List_Lexorder"
begin

section \<open>Data model of \<open>game::Room\<close> (src/game/room.cpp)\<close>

text \<open>
  The room's lifecycle state, the enum \<open>RoomState\<close>.
\<close>

datatype RoomState = WAITING | PLAYING | FINISHED

text \<open>
  Modelled from the spec: the \<open>Player\<close> struct is declared in a header that is not part of
  the sources; its fields are those of section 3 of the specification and those
  room.cpp reads and writes (\<open>id\<close>, \<open>name\<close>, \<open>display_name\<close>, \<open>ready\<close>, \<open>x\<close>, \<open>y\<close>,
  \<open>pending_actions\<close>, \<open>last_input_tick\<close>). The fields \<open>id\<close>, \<open>x\<close> and \<open>y\<close> carry the
  suffix \<open>_p\<close>. Coordinates are C++ floats; the room never computes with them, so their
  type is the parameter \<open>'f\<close>.
\<close>

record 'f player =
  id_p :: string
  name :: string
  display_name :: string
  ready :: bool
  x_p :: 'f
  y_p :: 'f
  pending_actions :: "string list"
  last_input_tick :: int

text \<open>
  What room.cpp uses and does not define: the constant \<open>GRACE_SECONDS\<close>, the period of
  \<open>Clock\<close> (time points are counted in clock ticks, \<open>ticks_per_second\<close> of them in a
  second), the table \<open>spawn_positions_\<close> (read at indices 0..3 only), the methods
  \<open>Player::spawn\<close> and \<open>Player::process_input\<close>, and the map constants of namespace
  \<open>physics\<close>. They are parameters of the model. So is the integer type of the
  member \<open>tick_\<close>: \<open>TICK_MAX\<close> is the largest value of that type, and \<open>TICK_WRAP\<close> the
  value the counter holds after \<open>tick_++\<close> at \<open>TICK_MAX\<close> (0 for an unsigned type, the
  smallest value of the type where a signed counter wraps around).
\<close>

record 'f env =
  GRACE_SECONDS :: int
  ticks_per_second :: int
  spawn_positions :: "nat \<Rightarrow> 'f \<times> 'f"
  spawn :: "'f \<Rightarrow> 'f \<Rightarrow> 'f player \<Rightarrow> 'f player"
  process_input :: "'f \<Rightarrow> 'f player \<Rightarrow> 'f player"
  MAP_WIDTH :: 'f
  MAP_HEIGHT :: 'f
  GROUND_Y :: 'f
  TICK_MAX :: int
  TICK_WRAP :: int

text \<open>
  The JSON payloads the room builds, one constructor for each \<open>"type"\<close>. Fields that are
  literals in the source (\<open>time_left\<close>, the empty \<open>enemies\<close> and \<open>items\<close> arrays, the round
  of a game state) are left out; \<open>Player::to_game_json\<close> is not part of the sources, so a
  game state carries the player records themselves.
\<close>

datatype 'f json =
  PlayerReadyState string bool
| ChatMessage string string string
| GameStart int "'f \<times> 'f \<times> 'f" "(string \<times> 'f \<times> 'f) list"
| GameState int "'f player list"

text \<open>
  The members of \<open>Room\<close>. The two player maps are association lists in iteration
  order. Modelled from the spec: the container type is declared in the missing header;
  the spec calls both members mappings with unique keys, and they are taken to be
  ordered maps (\<open>std::map\<close> over \<open>std::string\<close>), iterated in the order of their keys,
  strings compared byte by byte. \<open>broadcast_fn\<close> tells whether a delivery function is
  set, and \<open>delivered\<close> is the list of its invocations so far, each a recipient and a
  payload. \<open>tick\<close> holds a value of the counter's integer type, \<open>empty_since\<close> an
  optional time point.
\<close>

record 'f room =
  rid :: string
  max_players :: int
  state :: RoomState
  players :: "(string \<times> 'f player) list"
  disconnected_players :: "(string \<times> 'f player) list"
  tick :: int
  next_spawn :: nat
  empty_since :: "int option"
  broadcast_fn :: bool
  delivered :: "(string \<times> 'f json) list"

text \<open>
  Modelled from the spec: the constructor \<open>Room::Room\<close> sets \<open>id_\<close> and \<open>max_players_\<close>; the
  default member initialisers of the other fields are in the missing header. A room is
  created in state \<open>WAITING\<close> with empty maps, tick 0, spawn cursor 0, no grace timestamp
  and no delivery function.
\<close>

definition Room :: "string \<Rightarrow> int \<Rightarrow> 'f room" where
  "Room i mp =
     \<lparr> rid = i, max_players = mp, state = WAITING, players = [],
       disconnected_players = [], tick = 0, next_spawn = 0, empty_since = None,
       broadcast_fn = False, delivered = [] \<rparr>"

section \<open>Map operations\<close>

text \<open>\<open>m.emplace(k, v)\<close>: inserts at the place of the key unless the key is present.\<close>

definition emplace :: "'k::linorder \<Rightarrow> 'v \<Rightarrow> ('k \<times> 'v) list \<Rightarrow> ('k \<times> 'v) list" where
  "emplace k v m = (case map_of m k of None \<Rightarrow> insort_key fst (k, v) m | Some _ \<Rightarrow> m)"

text \<open>\<open>m.erase(it)\<close> for the iterator that \<open>find(k)\<close> returned.\<close>

definition erase :: "'k \<Rightarrow> ('k \<times> 'v) list \<Rightarrow> ('k \<times> 'v) list" where
  "erase k m = filter (\<lambda>e. fst e \<noteq> k) m"

text \<open>\<open>it->second.field = ...\<close> for the iterator that \<open>find(k)\<close> returned.\<close>

definition modify :: "'k \<Rightarrow> ('v \<Rightarrow> 'v) \<Rightarrow> ('k \<times> 'v) list \<Rightarrow> ('k \<times> 'v) list" where
  "modify k f m = map (\<lambda>e. if fst e = k then (fst e, f (snd e)) else e) m"

text \<open>\<open>m[k] = v\<close>: overwrites the value of the key, or inserts the key at its place.\<close>

definition assign :: "'k::linorder \<Rightarrow> 'v \<Rightarrow> ('k \<times> 'v) list \<Rightarrow> ('k \<times> 'v) list" where
  "assign k v m =
     (case map_of m k of
        None \<Rightarrow> insort_key fst (k, v) m
      | Some _ \<Rightarrow> modify k (\<lambda>_. v) m)"

section \<open>Queries\<close>

definition has_player :: "'f room \<Rightarrow> string \<Rightarrow> bool" where
  "has_player r player_id = (map_of (players r) player_id \<noteq> None)"

definition get_player :: "'f room \<Rightarrow> string \<Rightarrow> 'f player option" where
  "get_player r player_id = map_of (players r) player_id"

definition player_count :: "'f room \<Rightarrow> int" where
  "player_count r = int (length (players r))"

definition is_full :: "'f room \<Rightarrow> bool" where
  "is_full r = (int (length (players r)) \<ge> max_players r)"

definition is_empty :: "'f room \<Rightarrow> bool" where
  "is_empty r = (players r = [])"

definition all_ready :: "'f room \<Rightarrow> bool" where
  "all_ready r =
     (if players r = [] then False
      else if length (players r) < 2 then False
      else list_all (\<lambda>e. ready (snd e)) (players r))"

text \<open>
  \<open>duration_cast<seconds>(now - since).count()\<close>: the difference of two time points in
  whole seconds, rounded towards zero.
\<close>

definition elapsed_seconds :: "'f env \<Rightarrow> int \<Rightarrow> int \<Rightarrow> int" where
  "elapsed_seconds env now since =
     sgn (now - since) * sgn (ticks_per_second env)
       * (\<bar>now - since\<bar> div \<bar>ticks_per_second env\<bar>)"

definition should_cleanup :: "'f env \<Rightarrow> int \<Rightarrow> 'f room \<Rightarrow> bool" where
  "should_cleanup env now r =
     (if state r = FINISHED \<and> players r = [] then True
      else case empty_since r of
             None \<Rightarrow> False
           | Some t \<Rightarrow> GRACE_SECONDS env \<le> elapsed_seconds env now t)"

section \<open>Broadcasting\<close>

definition set_broadcast_fn :: "bool \<Rightarrow> 'f room \<Rightarrow> 'f room" where
  "set_broadcast_fn fn r = r\<lparr>broadcast_fn := fn\<rparr>"

text \<open>One payload, handed to the delivery function once for every connected player.\<close>

definition broadcast :: "'f json \<Rightarrow> 'f room \<Rightarrow> 'f room" where
  "broadcast msg r =
     (if \<not> broadcast_fn r then r
      else r\<lparr>delivered := delivered r @ map (\<lambda>e. (fst e, msg)) (players r)\<rparr>)"

definition game_state :: "'f room \<Rightarrow> 'f json" where
  "game_state r = GameState (tick r) (map snd (players r))"

section \<open>Player management\<close>

text \<open>
  \<open>add_player\<close> returns its success together with the room; the calls of the logger are
  left out here and below.
\<close>

definition add_player :: "'f env \<Rightarrow> 'f player \<Rightarrow> 'f room \<Rightarrow> bool \<times> 'f room" where
  "add_player env player r =
     (if has_player r (id_p player) then (False, r)
      else
        case map_of (disconnected_players r) (id_p player) of
          Some q \<Rightarrow>
            (let p = q\<lparr>name := name player, display_name := display_name player\<rparr>;
                 r1 = r\<lparr>disconnected_players := erase (id_p player) (disconnected_players r)\<rparr>
             in (True, r1\<lparr>players := emplace (id_p p) p (players r1), empty_since := None\<rparr>))
        | None \<Rightarrow>
            if is_full r then (False, r)
            else if state r = FINISHED then (False, r)
            else
              (let pr = (if state r = PLAYING
                         then (let idx = next_spawn r mod 4 in
                               (spawn env (fst (spawn_positions env idx))
                                          (snd (spawn_positions env idx)) player,
                                r\<lparr>next_spawn := next_spawn r + 1\<rparr>))
                         else (player, r));
                   p = fst pr;
                   r1 = snd pr
               in (True, r1\<lparr>players := emplace (id_p p) p (players r1), empty_since := None\<rparr>)))"

definition remove_player :: "int \<Rightarrow> string \<Rightarrow> 'f room \<Rightarrow> 'f room" where
  "remove_player now player_id r =
     (case map_of (players r) player_id of
        None \<Rightarrow> r
      | Some p \<Rightarrow>
          (let r1 = (if state r = PLAYING
                     then r\<lparr>disconnected_players := assign player_id p (disconnected_players r)\<rparr>
                     else r);
               r2 = r1\<lparr>players := erase player_id (players r1)\<rparr>
           in if players r2 = [] then
                (if state r2 = PLAYING \<and> disconnected_players r2 \<noteq> []
                 then r2\<lparr>empty_since := Some now\<rparr>
                 else if state r2 = WAITING then r2\<lparr>state := FINISHED\<rparr>
                 else r2)
              else r2))"

section \<open>Gameplay\<close>

text \<open>
  The spawn loop of \<open>start_game\<close>: every player in iteration order gets the position at
  the cursor modulo 4, and the cursor advances.
\<close>

fun spawn_all ::
  "'f env \<Rightarrow> (string \<times> 'f player) list \<Rightarrow> nat \<Rightarrow> (string \<times> 'f player) list \<times> nat" where
  "spawn_all env [] n = ([], n)"
| "spawn_all env (e # ps) n =
     (let idx = n mod 4;
          e' = (fst e, spawn env (fst (spawn_positions env idx))
                                 (snd (spawn_positions env idx)) (snd e));
          rest = spawn_all env ps (n + 1)
      in (e' # fst rest, snd rest))"

definition start_game :: "'f env \<Rightarrow> 'f room \<Rightarrow> 'f room" where
  "start_game env r =
     (if state r \<noteq> WAITING then r
      else
        (let r1 = r\<lparr>state := PLAYING, tick := 0, next_spawn := 0\<rparr>;
             sp = spawn_all env (players r1) (next_spawn r1);
             r2 = r1\<lparr>players := fst sp, next_spawn := snd sp\<rparr>;
             spawn_points = map (\<lambda>e. (fst e, x_p (snd e), y_p (snd e))) (players r2)
         in broadcast
              (GameStart 1 (MAP_WIDTH env, MAP_HEIGHT env, GROUND_Y env) spawn_points) r2))"

text \<open>
  \<open>tick_++\<close> adds one below the largest value of the counter's type; at that value the
  increment overflows and leaves \<open>TICK_WRAP\<close>.
\<close>

definition update :: "'f env \<Rightarrow> 'f \<Rightarrow> int \<Rightarrow> 'f room \<Rightarrow> 'f room" where
  "update env dt now r =
     (if state r \<noteq> PLAYING then r
      else if (case empty_since r of
                 None \<Rightarrow> False
               | Some t \<Rightarrow> GRACE_SECONDS env \<le> elapsed_seconds env now t)
      then r\<lparr>state := FINISHED, disconnected_players := []\<rparr>
      else if players r = [] then r
      else
        (let r1 = r\<lparr>tick := (if tick r < TICK_MAX env then tick r + 1 else TICK_WRAP env)\<rparr>;
             r2 = r1\<lparr>players := map (\<lambda>e. (fst e, process_input env dt (snd e))) (players r1)\<rparr>
         in broadcast (game_state r2) r2))"

definition queue_input :: "string \<Rightarrow> int \<Rightarrow> string list \<Rightarrow> 'f room \<Rightarrow> 'f room" where
  "queue_input player_id tk actions r =
     (case map_of (players r) player_id of
        None \<Rightarrow> r
      | Some _ \<Rightarrow>
          r\<lparr>players :=
              modify player_id (\<lambda>p. p\<lparr>pending_actions := actions, last_input_tick := tk\<rparr>)
                (players r)\<rparr>)"

section \<open>Lobby and chat\<close>

definition set_player_ready :: "'f env \<Rightarrow> string \<Rightarrow> bool \<Rightarrow> 'f room \<Rightarrow> 'f room" where
  "set_player_ready env player_id rdy r =
     (case map_of (players r) player_id of
        None \<Rightarrow> r
      | Some _ \<Rightarrow>
          (let r1 = r\<lparr>players := modify player_id (\<lambda>p. p\<lparr>ready := rdy\<rparr>) (players r)\<rparr>;
               r2 = broadcast (PlayerReadyState player_id rdy) r1
           in if all_ready r2 \<and> state r2 = WAITING then start_game env r2 else r2))"

definition handle_chat :: "string \<Rightarrow> string \<Rightarrow> 'f room \<Rightarrow> 'f room" where
  "handle_chat sender_id message r =
     (case get_player r sender_id of
        None \<Rightarrow> r
      | Some p \<Rightarrow> broadcast (ChatMessage sender_id (name p) message) r)"

section \<open>Sequences of operations\<close>

text \<open>
  The calls a dispatcher can make on a room. \<open>remove_player\<close> and \<open>update\<close> read the clock;
  the time point they read is an argument of the call.
\<close>

datatype 'f op =
  AddPlayer "'f player"
| RemovePlayer int string
| SetPlayerReady string bool
| HandleChat string string
| StartGame
| Update 'f int
| QueueInput string int "string list"
| SetBroadcastFn bool

fun step :: "'f env \<Rightarrow> 'f op \<Rightarrow> 'f room \<Rightarrow> 'f room" where
  "step env (AddPlayer p) r = snd (add_player env p r)"
| "step env (RemovePlayer now i) r = remove_player now i r"
| "step env (SetPlayerReady i b) r = set_player_ready env i b r"
| "step env (HandleChat i m) r = handle_chat i m r"
| "step env StartGame r = start_game env r"
| "step env (Update dt now) r = update env dt now r"
| "step env (QueueInput i t a) r = queue_input i t a r"
| "step env (SetBroadcastFn fn) r = set_broadcast_fn fn r"

fun run :: "'f env \<Rightarrow> 'f op list \<Rightarrow> 'f room \<Rightarrow> 'f room" where
  "run env [] r = r"
| "run env (c # cs) r = run env cs (step env c r)"

section \<open>Predicates and example data\<close>

text \<open>
  The invariant behind the grace period: a grace timestamp is present only in a room
  without connected players, which is either playing with players to wait for or
  finished with none; a playing room that is empty and has players to wait for carries a
  timestamp; and players are kept for reconnection only while the room is playing.
\<close>

definition grace_inv :: "'f room \<Rightarrow> bool" where
  "grace_inv r \<longleftrightarrow>
     (empty_since r \<noteq> None \<longrightarrow>
        players r = [] \<and>
        (state r = PLAYING \<and> disconnected_players r \<noteq> [] \<or>
         state r = FINISHED \<and> disconnected_players r = [])) \<and>
     (players r = [] \<and> state r = PLAYING \<and> disconnected_players r \<noteq> [] \<longrightarrow>
        empty_since r \<noteq> None) \<and>
     (disconnected_players r \<noteq> [] \<longrightarrow> state r = PLAYING)"

text \<open>
  An instance of the parameters for the examples below: a grace period of 30 seconds on
  a millisecond clock, \<open>spawn\<close> setting the position, \<open>process_input\<close> leaving the player
  as it is, and a tick counter of 32 bits in two's complement.
\<close>

definition example_env :: "int env" where
  "example_env =
     \<lparr> GRACE_SECONDS = 30, ticks_per_second = 1000,
       spawn_positions = (\<lambda>i. (int i * 10, 0)),
       spawn = (\<lambda>sx sy p. p\<lparr>x_p := sx, y_p := sy\<rparr>),
       process_input = (\<lambda>dt p. p),
       MAP_WIDTH = 100, MAP_HEIGHT = 50, GROUND_Y = 40,
       TICK_MAX = 2147483647, TICK_WRAP = - 2147483648 \<rparr>"

definition new_player :: "string \<Rightarrow> string \<Rightarrow> string \<Rightarrow> int player" where
  "new_player i n d =
     \<lparr> id_p = i, name = n, display_name = d, ready = False, x_p = 0, y_p = 0,
       pending_actions = [], last_input_tick = 0 \<rparr>"

definition alice :: "int player" where
  "alice = new_player ''a'' ''alice'' ''Alice A.''"

definition bob :: "int player" where
  "bob = new_player ''b'' ''bob'' ''Bob B.''"

definition carol :: "int player" where
  "carol = new_player ''c'' ''carol'' ''Carol C.''"

text \<open>Two players join a room, both get ready, and the game starts.\<close>

definition lobby_to_game :: "int op list" where
  "lobby_to_game =
     [SetBroadcastFn True, AddPlayer alice, AddPlayer bob,
      SetPlayerReady ''a'' True, SetPlayerReady ''b'' True]"

text \<open>After one tick both players disconnect, the second at time 5000.\<close>

definition all_left :: "int op list" where
  "all_left = lobby_to_game @ [Update 0 100, RemovePlayer 2000 ''a'', RemovePlayer 5000 ''b'']"

text \<open>The room is then updated 30 seconds after it became empty.\<close>

definition grace_expired :: "int op list" where
  "grace_expired = all_left @ [Update 0 35000]"






text \<open>
  The operation is an \<open>add_player\<close> that takes the reconnect branch (the id is not
  connected and is found in \<open>disconnected_players\<close>) on a room that is full.
\<close>

fun reconnect_when_full :: "'f room \<Rightarrow> 'f op \<Rightarrow> bool" where
  "reconnect_when_full r (AddPlayer p) =
     (\<not> has_player r (id_p p) \<and> map_of (disconnected_players r) (id_p p) \<noteq> None \<and>
      is_full r)"
| "reconnect_when_full r c = False"

text \<open>No operation of the sequence, run from the room, is a reconnect into a full room.\<close>

fun no_full_reconnect :: "'f env \<Rightarrow> 'f op list \<Rightarrow> 'f room \<Rightarrow> bool" where
  "no_full_reconnect env [] r = True"
| "no_full_reconnect env (c # cs) r =
     (\<not> reconnect_when_full r c \<and> no_full_reconnect env cs (step env c r))"

text \<open>
  In a running game of a room for two, one player disconnects, a third player joins in
  the free place, and the first player reconnects.
\<close>

definition late_join_then_reconnect :: "int op list" where
  "late_join_then_reconnect =
     lobby_to_game @ [RemovePlayer 2000 ''a'', AddPlayer carol, AddPlayer alice]"

text \<open>In the same game the player who disconnected comes back to the free place.\<close>

definition leave_and_return :: "int op list" where
  "leave_and_return = lobby_to_game @ [RemovePlayer 2000 ''a'', AddPlayer alice]"

text \<open>The payload is a \<open>game_start\<close> event; the \<open>game_start\<close> deliveries of a room.\<close>

fun is_game_start :: "'f json \<Rightarrow> bool" where
  "is_game_start (GameStart rnd md sps) = True"
| "is_game_start m = False"

definition game_starts :: "'f room \<Rightarrow> (string \<times> 'f json) list" where
  "game_starts r = filter (\<lambda>d. is_game_start (snd d)) (delivered r)"

text \<open>The keys of the list are in ascending order, each key once.\<close>

definition ordered_keys :: "('k::linorder \<times> 'v) list \<Rightarrow> bool" where
  "ordered_keys m \<longleftrightarrow> sorted (map fst m) \<and> distinct (map fst m)"

text \<open>Every record of the map is stored under its own id.\<close>

definition ids_are_keys :: "(string \<times> 'f player) list \<Rightarrow> bool" where
  "ids_are_keys m = list_all (\<lambda>e. id_p (snd e) = fst e) m"

text \<open>Further example sequences: a lobby with one player, and one with two of whom one is
  ready; a game in which the second player queued an input and then disconnected; and
  the record with which that player comes back, under new names.\<close>

definition alone_in_lobby :: "int op list" where
  "alone_in_lobby = [SetBroadcastFn True, AddPlayer alice]"

definition one_ready_of_two :: "int op list" where
  "one_ready_of_two =
     [SetBroadcastFn True, AddPlayer alice, AddPlayer bob, SetPlayerReady ''a'' True]"

definition bob_disconnected :: "int op list" where
  "bob_disconnected =
     lobby_to_game @ [Update 0 100, QueueInput ''b'' 7 [''jump''], RemovePlayer 2000 ''b'']"

definition bob_renamed :: "int player" where
  "bob_renamed = new_player ''b'' ''bobby'' ''Bobby B.''"

section \<open>Facts about the map operations\<close>

lemma emplace_not_Nil: "emplace k v m \<noteq> []"
  by (auto simp: emplace_def split: option.splits)

lemma length_emplace: "length (emplace k v m) \<le> Suc (length m)"
  by (simp add: emplace_def split: option.splits)

lemma map_of_insort_key: "map_of (insort_key fst (k, v) m) = (map_of m)(k \<mapsto> v)"
  by (induction m) (auto simp: fun_upd_twist)

lemma length_erase: "length (erase k m) \<le> length m"
  by (simp add: erase_def)

lemma map_of_erase_other: "k' \<noteq> k \<Longrightarrow> map_of (erase k m) k' = map_of m k'"
  by (induction m) (auto simp: erase_def)

lemma assign_not_Nil: "assign k v m \<noteq> []"
  by (auto simp: assign_def modify_def split: option.splits)

lemma length_modify: "length (modify k f m) = length m"
  by (simp add: modify_def)

lemma modify_Nil_iff: "modify k f m = [] \<longleftrightarrow> m = []"
  by (simp add: modify_def)

lemma length_spawn_all: "length (fst (spawn_all env ps n)) = length ps"
  by (induction ps arbitrary: n) (simp_all add: Let_def)

lemma spawn_all_Nil_iff: "fst (spawn_all env ps n) = [] \<longleftrightarrow> ps = []"
  using length_spawn_all [of env ps n] by (metis length_0_conv)

lemma broadcast_fields:
  "state (broadcast msg r) = state r"
  "players (broadcast msg r) = players r"
  "disconnected_players (broadcast msg r) = disconnected_players r"
  "tick (broadcast msg r) = tick r"
  "next_spawn (broadcast msg r) = next_spawn r"
  "empty_since (broadcast msg r) = empty_since r"
  "max_players (broadcast msg r) = max_players r"
  "broadcast_fn (broadcast msg r) = broadcast_fn r"
  by (simp_all add: broadcast_def)

section \<open>The grace invariant holds in every reachable state\<close>

lemma grace_inv_Room: "grace_inv (Room i mp)"
  by (simp add: grace_inv_def Room_def)

lemma grace_inv_add_player: "grace_inv r \<Longrightarrow> grace_inv (snd (add_player env p r))"
  by (auto simp: grace_inv_def add_player_def Let_def emplace_not_Nil erase_def
           split: option.splits if_splits)

lemma grace_inv_remove_player: "grace_inv r \<Longrightarrow> grace_inv (remove_player now i r)"
  by (auto simp: grace_inv_def remove_player_def Let_def assign_not_Nil erase_def
           split: option.splits if_splits RoomState.splits)

lemma grace_inv_start_game: "grace_inv r \<Longrightarrow> grace_inv (start_game env r)"
  by (auto simp: grace_inv_def start_game_def Let_def broadcast_fields spawn_all_Nil_iff)

lemma grace_inv_set_player_ready: "grace_inv r \<Longrightarrow> grace_inv (set_player_ready env i b r)"
  by (auto simp: grace_inv_def set_player_ready_def start_game_def Let_def broadcast_fields
        spawn_all_Nil_iff modify_Nil_iff split: option.splits)

lemma grace_inv_update: "grace_inv r \<Longrightarrow> grace_inv (update env dt now r)"
  by (auto simp: grace_inv_def update_def Let_def broadcast_fields split: option.splits)

lemma grace_inv_step: "grace_inv r \<Longrightarrow> grace_inv (step env c r)"
proof (cases c)
  case (HandleChat i m)
  assume "grace_inv r"
  then show ?thesis
    by (simp add: HandleChat handle_chat_def grace_inv_def broadcast_fields split: option.splits)
next
  case (QueueInput i t a)
  assume "grace_inv r"
  then show ?thesis
    by (auto simp: QueueInput queue_input_def grace_inv_def modify_Nil_iff split: option.splits)
next
  case (SetBroadcastFn fn)
  assume "grace_inv r"
  then show ?thesis
    by (simp add: SetBroadcastFn set_broadcast_fn_def grace_inv_def)
qed (simp_all add: grace_inv_add_player grace_inv_remove_player grace_inv_start_game
       grace_inv_set_player_ready grace_inv_update)

lemma grace_inv_run: "grace_inv r \<Longrightarrow> grace_inv (run env cs r)"
  by (induction cs arbitrary: r) (simp_all add: grace_inv_step)

lemma grace_inv_reachable: "grace_inv (run env cs (Room i mp))"
  by (rule grace_inv_run) (rule grace_inv_Room)

section \<open>The tick counter\<close>





lemma state_start_game:
  "state (start_game env r) = (if state r = WAITING then PLAYING else state r)"
  by (simp add: start_game_def Let_def broadcast_fields)














section \<open>Capacity\<close>

lemma max_players_add_player: "max_players (snd (add_player env p r)) = max_players r"
  by (simp add: add_player_def Let_def split: option.splits)

lemma max_players_remove_player: "max_players (remove_player now i r) = max_players r"
  by (simp add: remove_player_def Let_def split: option.splits)

lemma max_players_start_game: "max_players (start_game env r) = max_players r"
  by (simp add: start_game_def Let_def broadcast_fields)

lemma max_players_set_player_ready: "max_players (set_player_ready env i b r) = max_players r"
  by (simp add: set_player_ready_def Let_def broadcast_fields max_players_start_game
        split: option.splits)

lemma max_players_update: "max_players (update env dt now r) = max_players r"
  by (simp add: update_def Let_def broadcast_fields split: option.splits)

lemma max_players_step: "max_players (step env c r) = max_players r"
proof (cases c)
  case (HandleChat i m)
  then show ?thesis
    by (simp add: handle_chat_def broadcast_fields split: option.splits)
next
  case (QueueInput i t a)
  then show ?thesis
    by (simp add: queue_input_def split: option.splits)
qed (simp_all add: max_players_add_player max_players_remove_player max_players_start_game
       max_players_set_player_ready max_players_update set_broadcast_fn_def)

lemma add_player_failed: "\<not> fst (add_player env p r) \<Longrightarrow> snd (add_player env p r) = r"
  by (simp add: add_player_def Let_def split: option.splits if_splits)

lemma add_player_emplaces:
  "fst (add_player env p r) \<Longrightarrow>
   \<exists>k v. players (snd (add_player env p r)) = emplace k v (players r)"
  by (simp add: add_player_def Let_def split: option.splits if_splits) blast+

lemma add_player_fresh_not_full:
  "fst (add_player env p r) \<Longrightarrow> map_of (disconnected_players r) (id_p p) = None \<Longrightarrow>
   \<not> is_full r"
  by (simp add: add_player_def Let_def split: if_splits)

lemma length_players_add:
  assumes "\<not> reconnect_when_full r (AddPlayer p)"
    and "int (length (players r)) \<le> max_players r"
  shows "int (length (players (snd (add_player env p r)))) \<le> max_players r"
proof (cases "fst (add_player env p r)")
  case False
  with assms(2) show ?thesis
    by (simp add: add_player_failed)
next
  case True
  then have absent: "\<not> has_player r (id_p p)"
    by (auto simp: add_player_def split: if_splits)
  have "\<not> is_full r"
  proof (cases "map_of (disconnected_players r) (id_p p)")
    case None
    with True show ?thesis
      by (rule add_player_fresh_not_full)
  next
    case (Some q)
    with assms(1) absent show ?thesis
      by simp
  qed
  then have lt: "int (length (players r)) < max_players r"
    by (simp add: is_full_def)
  from add_player_emplaces [OF True] obtain k v
    where "players (snd (add_player env p r)) = emplace k v (players r)"
    by blast
  with length_emplace [of k v "players r"] lt show ?thesis
    by simp
qed

lemma length_players_remove:
  "length (players (remove_player now i r)) \<le> length (players r)"
  using length_erase [of i "players r"]
  by (simp add: remove_player_def Let_def split: option.splits)

lemma length_players_start_game:
  "length (players (start_game env r)) = length (players r)"
  by (simp add: start_game_def Let_def broadcast_fields length_spawn_all)

lemma length_players_set_player_ready:
  "length (players (set_player_ready env i b r)) = length (players r)"
  by (simp add: set_player_ready_def Let_def broadcast_fields length_players_start_game
        length_modify split: option.splits)

lemma length_players_update:
  "length (players (update env dt now r)) = length (players r)"
  by (simp add: update_def Let_def broadcast_fields split: option.splits)

lemma capacity_step:
  assumes "\<not> reconnect_when_full r c" and "player_count r \<le> max_players r"
  shows "player_count (step env c r) \<le> max_players r"
proof (cases c)
  case (AddPlayer p)
  with assms show ?thesis
    using length_players_add [of r p env] by (simp add: player_count_def)
next
  case (RemovePlayer now i)
  with assms length_players_remove [of now i r] show ?thesis
    by (simp add: player_count_def)
next
  case (SetPlayerReady i b)
  with assms show ?thesis
    by (simp add: player_count_def length_players_set_player_ready)
next
  case (HandleChat i m)
  with assms show ?thesis
    by (simp add: player_count_def handle_chat_def broadcast_fields split: option.splits)
next
  case StartGame
  with assms show ?thesis
    by (simp add: player_count_def length_players_start_game)
next
  case (Update dt now)
  with assms show ?thesis
    by (simp add: player_count_def length_players_update)
next
  case (QueueInput i t a)
  with assms show ?thesis
    by (simp add: player_count_def queue_input_def length_modify split: option.splits)
next
  case (SetBroadcastFn fn)
  with assms show ?thesis
    by (simp add: player_count_def set_broadcast_fn_def)
qed

lemma capacity_run:
  "no_full_reconnect env cs r \<Longrightarrow> player_count r \<le> max_players r \<Longrightarrow>
   player_count (run env cs r) \<le> max_players (run env cs r) \<and>
   max_players (run env cs r) = max_players r"
proof (induction cs arbitrary: r)
  case Nil
  then show ?case by simp
next
  case (Cons c cs)
  from Cons.prems have nr: "\<not> reconnect_when_full r c"
    and rest: "no_full_reconnect env cs (step env c r)"
    by simp_all
  have "player_count (step env c r) \<le> max_players (step env c r)"
    using capacity_step [OF nr Cons.prems(2), of env] by (simp add: max_players_step)
  from Cons.IH [OF rest this] show ?case
    by (simp add: max_players_step)
qed

section \<open>Ready check and start\<close>

lemma broadcast_delivered:
  "delivered (broadcast msg r) =
     delivered r @ (if broadcast_fn r then map (\<lambda>k. (k, msg)) (map fst (players r)) else [])"
  by (simp add: broadcast_def comp_def)

lemma map_fst_modify: "map fst (modify k f m) = map fst m"
  by (simp add: modify_def comp_def)

lemma map_fst_spawn_all: "map fst (fst (spawn_all env ps n)) = map fst ps"
  by (induction ps arbitrary: n) (simp_all add: Let_def)

lemma list_all_ready_modify:
  "list_all (\<lambda>e. fst e = k \<or> ready (snd e)) m \<Longrightarrow>
   list_all (\<lambda>e. ready (snd e)) (modify k (\<lambda>p. p\<lparr>ready := True\<rparr>) m)"
  by (induction m) (auto simp: modify_def)

lemma all_ready_small: "length (players r) \<le> 1 \<Longrightarrow> \<not> all_ready r"
  by (simp add: all_ready_def)

lemma start_game_not_WAITING: "state r \<noteq> WAITING \<Longrightarrow> start_game env r = r"
  by (simp add: start_game_def)

lemma set_player_ready_no_start:
  assumes "\<not> (state r = WAITING \<and> 2 \<le> length (players r))"
  shows "state (set_player_ready env i b r) = state r \<and>
         game_starts (set_player_ready env i b r) = game_starts r"
proof (cases "map_of (players r) i")
  case None
  then show ?thesis by (simp add: set_player_ready_def)
next
  case (Some p)
  let ?r2 = "broadcast (PlayerReadyState i b)
               (r\<lparr>players := modify i (\<lambda>p. p\<lparr>ready := b\<rparr>) (players r)\<rparr>)"
  from assms have "\<not> (all_ready ?r2 \<and> state ?r2 = WAITING)"
    by (auto simp: all_ready_def broadcast_fields length_modify)
  with Some have "set_player_ready env i b r = ?r2"
    by (auto simp: set_player_ready_def Let_def)
  then show ?thesis
    by (simp add: broadcast_fields game_starts_def broadcast_delivered)
qed

lemma set_player_ready_starts:
  assumes w: "state r = WAITING" and two: "length (players r) = 2"
    and conn: "has_player r i"
    and rest: "list_all (\<lambda>e. fst e = i \<or> ready (snd e)) (players r)"
  shows "state (set_player_ready env i True r) = PLAYING"
    and "tick (set_player_ready env i True r) = 0"
    and "delivered (set_player_ready env i True r) =
       delivered r @
       (if broadcast_fn r
        then map (\<lambda>k. (k, PlayerReadyState i True)) (map fst (players r)) @
             map (\<lambda>k. (k, GameStart 1 (MAP_WIDTH env, MAP_HEIGHT env, GROUND_Y env)
                    (map (\<lambda>e. (fst e, x_p (snd e), y_p (snd e)))
                       (players (set_player_ready env i True r)))))
               (map fst (players r))
        else [])"
proof -
  let ?r2 = "broadcast (PlayerReadyState i True)
               (r\<lparr>players := modify i (\<lambda>p. p\<lparr>ready := True\<rparr>) (players r)\<rparr>)"
  from conn obtain p where found: "map_of (players r) i = Some p"
    by (auto simp: has_player_def)
  have ar: "all_ready ?r2"
    using two list_all_ready_modify [OF rest]
    by (auto simp: all_ready_def broadcast_fields length_modify modify_Nil_iff)
  have w2: "state ?r2 = WAITING"
    using w by (simp add: broadcast_fields)
  from found ar w2 have eq: "set_player_ready env i True r = start_game env ?r2"
    by (simp add: set_player_ready_def Let_def)
  show "state (set_player_ready env i True r) = PLAYING"
    unfolding eq using w2 by (simp add: start_game_def Let_def broadcast_fields)
  show "tick (set_player_ready env i True r) = 0"
    unfolding eq using w2 by (simp add: start_game_def Let_def broadcast_fields)
  have pl: "players (start_game env ?r2) =
      fst (spawn_all env (modify i (\<lambda>p. p\<lparr>ready := True\<rparr>) (players r)) 0)"
    using w2 by (simp add: start_game_def Let_def broadcast_fields)
  have "delivered (start_game env ?r2) =
      delivered ?r2 @
      (if broadcast_fn r
       then map (\<lambda>k. (k, GameStart 1 (MAP_WIDTH env, MAP_HEIGHT env, GROUND_Y env)
                    (map (\<lambda>e. (fst e, x_p (snd e), y_p (snd e)))
                       (players (start_game env ?r2)))))
              (map fst (players r))
       else [])"
    unfolding pl using w2
    by (simp add: start_game_def Let_def broadcast_fields broadcast_delivered
          map_fst_spawn_all map_fst_modify)
  then show "delivered (set_player_ready env i True r) =
       delivered r @
       (if broadcast_fn r
        then map (\<lambda>k. (k, PlayerReadyState i True)) (map fst (players r)) @
             map (\<lambda>k. (k, GameStart 1 (MAP_WIDTH env, MAP_HEIGHT env, GROUND_Y env)
                    (map (\<lambda>e. (fst e, x_p (snd e), y_p (snd e)))
                       (players (set_player_ready env i True r)))))
               (map fst (players r))
        else [])"
    unfolding eq by (simp add: broadcast_delivered map_fst_modify)
qed

lemma game_starts_append:
  "delivered r' = delivered r @ ds \<Longrightarrow>
   game_starts r' = game_starts r @ filter (\<lambda>d. is_game_start (snd d)) ds"
  by (simp add: game_starts_def)

section \<open>Records are stored under their own id\<close>

lemma ids_are_keys_map_of: "ids_are_keys m \<Longrightarrow> map_of m k = Some p \<Longrightarrow> id_p p = k"
  by (fastforce simp: ids_are_keys_def list_all_iff dest: map_of_SomeD)

lemma ids_are_keys_Nil: "ids_are_keys []"
  by (simp add: ids_are_keys_def)

lemma ids_are_keys_emplace: "ids_are_keys m \<Longrightarrow> id_p p = k \<Longrightarrow> ids_are_keys (emplace k p m)"
  by (auto simp: ids_are_keys_def emplace_def list_all_iff set_insort_key split: option.splits)

lemma ids_are_keys_erase: "ids_are_keys m \<Longrightarrow> ids_are_keys (erase k m)"
  by (simp add: ids_are_keys_def erase_def list_all_iff)

lemma ids_are_keys_assign: "ids_are_keys m \<Longrightarrow> id_p p = k \<Longrightarrow> ids_are_keys (assign k p m)"
  by (auto simp: ids_are_keys_def assign_def modify_def list_all_iff set_insort_key
        split: option.splits)

lemma ids_are_keys_modify:
  "(\<And>p. id_p (f p) = id_p p) \<Longrightarrow> ids_are_keys m \<Longrightarrow> ids_are_keys (modify k f m)"
  by (induction m) (simp_all add: ids_are_keys_def modify_def)

lemma ids_are_keys_map:
  "(\<And>p. id_p (f p) = id_p p) \<Longrightarrow> ids_are_keys m \<Longrightarrow>
   ids_are_keys (map (\<lambda>e. (fst e, f (snd e))) m)"
  by (induction m) (simp_all add: ids_are_keys_def)

lemma ids_are_keys_spawn_all:
  "(\<And>sx sy p. id_p (spawn env sx sy p) = id_p p) \<Longrightarrow> ids_are_keys ps \<Longrightarrow>
   ids_are_keys (fst (spawn_all env ps n))"
  by (induction ps arbitrary: n) (simp_all add: ids_are_keys_def Let_def)

lemma ids_add_player:
  assumes "ids_are_keys (players r)" and "ids_are_keys (disconnected_players r)"
  shows "ids_are_keys (players (snd (add_player env p r))) \<and>
         ids_are_keys (disconnected_players (snd (add_player env p r)))"
  using assms
  by (simp add: add_player_def Let_def ids_are_keys_emplace ids_are_keys_erase
        split: option.splits)

lemma ids_remove_player:
  assumes "ids_are_keys (players r)" and "ids_are_keys (disconnected_players r)"
  shows "ids_are_keys (players (remove_player now i r)) \<and>
         ids_are_keys (disconnected_players (remove_player now i r))"
proof (cases "map_of (players r) i")
  case None
  with assms show ?thesis by (simp add: remove_player_def)
next
  case (Some p)
  with assms(1) have "id_p p = i" by (rule ids_are_keys_map_of)
  with assms Some show ?thesis
    by (simp add: remove_player_def Let_def ids_are_keys_erase ids_are_keys_assign
          ids_are_keys_Nil)
qed

lemma ids_start_game:
  assumes "\<And>sx sy p. id_p (spawn env sx sy p) = id_p p"
    and "ids_are_keys (players r)" and "ids_are_keys (disconnected_players r)"
  shows "ids_are_keys (players (start_game env r)) \<and>
         ids_are_keys (disconnected_players (start_game env r))"
  using assms(2,3) ids_are_keys_spawn_all [of env "players r" 0, OF assms(1)]
  by (simp add: start_game_def Let_def broadcast_fields)

lemma ids_set_player_ready:
  assumes "\<And>sx sy p. id_p (spawn env sx sy p) = id_p p"
    and "ids_are_keys (players r)" and "ids_are_keys (disconnected_players r)"
  shows "ids_are_keys (players (set_player_ready env i b r)) \<and>
         ids_are_keys (disconnected_players (set_player_ready env i b r))"
proof -
  let ?r2 = "broadcast (PlayerReadyState i b)
               (r\<lparr>players := modify i (\<lambda>p. p\<lparr>ready := b\<rparr>) (players r)\<rparr>)"
  have "ids_are_keys (modify i (\<lambda>p. p\<lparr>ready := b\<rparr>) (players r))"
    by (rule ids_are_keys_modify) (simp_all add: assms(2))
  then have k: "ids_are_keys (players ?r2)" and d: "ids_are_keys (disconnected_players ?r2)"
    using assms(3) by (simp_all add: broadcast_fields)
  from ids_start_game [of env ?r2, OF assms(1) k d] k d assms(2,3) show ?thesis
    by (simp add: set_player_ready_def Let_def split: option.splits)
qed

lemma ids_update:
  assumes "\<And>dt p. id_p (process_input env dt p) = id_p p"
    and "ids_are_keys (players r)" and "ids_are_keys (disconnected_players r)"
  shows "ids_are_keys (players (update env dt now r)) \<and>
         ids_are_keys (disconnected_players (update env dt now r))"
  using assms(2,3) ids_are_keys_map [of "process_input env dt" "players r", OF assms(1) assms(2)]
  by (simp add: update_def Let_def broadcast_fields ids_are_keys_def split: option.splits)

lemma ids_step:
  assumes "\<And>sx sy p. id_p (spawn env sx sy p) = id_p p"
    and "\<And>dt p. id_p (process_input env dt p) = id_p p"
    and "ids_are_keys (players r)" and "ids_are_keys (disconnected_players r)"
  shows "ids_are_keys (players (step env c r)) \<and>
         ids_are_keys (disconnected_players (step env c r))"
proof (cases c)
  case (AddPlayer p)
  with ids_add_player [OF assms(3,4)] show ?thesis by simp
next
  case (RemovePlayer now i)
  with ids_remove_player [OF assms(3,4)] show ?thesis by simp
next
  case (SetPlayerReady i b)
  with ids_set_player_ready [of env r, OF assms(1,3,4)] show ?thesis by simp
next
  case (HandleChat i m)
  with assms(3,4) show ?thesis
    by (simp add: handle_chat_def broadcast_fields split: option.splits)
next
  case StartGame
  with ids_start_game [of env r, OF assms(1,3,4)] show ?thesis by simp
next
  case (Update dt now)
  with ids_update [of env r, OF assms(2,3,4)] show ?thesis by simp
next
  case (QueueInput i t a)
  have "ids_are_keys
     (modify i (\<lambda>p. p\<lparr>pending_actions := a, last_input_tick := t\<rparr>) (players r))"
    by (rule ids_are_keys_modify) (simp_all add: assms(3))
  with QueueInput assms(3,4) show ?thesis
    by (simp add: queue_input_def split: option.splits)
next
  case (SetBroadcastFn fn)
  with assms(3,4) show ?thesis by (simp add: set_broadcast_fn_def)
qed

lemma ids_run:
  assumes "\<And>sx sy p. id_p (spawn env sx sy p) = id_p p"
    and "\<And>dt p. id_p (process_input env dt p) = id_p p"
  shows "ids_are_keys (players r) \<Longrightarrow> ids_are_keys (disconnected_players r) \<Longrightarrow>
     ids_are_keys (players (run env cs r)) \<and>
     ids_are_keys (disconnected_players (run env cs r))"
proof (induction cs arbitrary: r)
  case Nil
  then show ?case by simp
next
  case (Cons c cs)
  from ids_step [of env r c, OF assms Cons.prems]
  have "ids_are_keys (players (step env c r))"
    and "ids_are_keys (disconnected_players (step env c r))"
    by simp_all
  from Cons.IH [OF this] show ?case by simp
qed

lemma stored_under_own_id:
  assumes "\<And>sx sy p. id_p (spawn env sx sy p) = id_p p"
    and "\<And>dt p. id_p (process_input env dt p) = id_p p"
    and "map_of (disconnected_players (run env cs (Room i mp))) k = Some q"
  shows "id_p q = k"
proof -
  have "ids_are_keys (disconnected_players (run env cs (Room i mp)))"
    using ids_run [of env "Room i mp" cs, OF assms(1,2)]
    by (simp add: Room_def ids_are_keys_def)
  from this assms(3) show ?thesis by (rule ids_are_keys_map_of)
qed

section \<open>The maps are ordered by their keys\<close>

text \<open>
  The association lists stand for ordered maps: in every reachable state the keys of a
  list are in ascending order and no key occurs twice, so that removing the entries of
  a key removes the one entry an iterator points to.
\<close>

lemma ordered_keys_Nil: "ordered_keys []"
  by (simp add: ordered_keys_def)

lemma ordered_keys_emplace: "ordered_keys m \<Longrightarrow> ordered_keys (emplace k v m)"
  by (auto simp: ordered_keys_def emplace_def map_of_eq_None_iff distinct_insort_key
        sorted_insort_key split: option.splits)

lemma ordered_keys_erase: "ordered_keys m \<Longrightarrow> ordered_keys (erase k m)"
  by (simp add: ordered_keys_def erase_def distinct_map_filter sorted_filter)

lemma ordered_keys_assign: "ordered_keys m \<Longrightarrow> ordered_keys (assign k v m)"
  by (auto simp: ordered_keys_def assign_def map_of_eq_None_iff distinct_insort_key
        sorted_insort_key map_fst_modify split: option.splits)

lemma keys_add_player:
  "ordered_keys (players r) \<Longrightarrow> ordered_keys (disconnected_players r) \<Longrightarrow>
   ordered_keys (players (snd (add_player env p r))) \<and>
   ordered_keys (disconnected_players (snd (add_player env p r)))"
  by (simp add: add_player_def Let_def ordered_keys_emplace ordered_keys_erase
        split: option.splits)

lemma keys_remove_player:
  "ordered_keys (players r) \<Longrightarrow> ordered_keys (disconnected_players r) \<Longrightarrow>
   ordered_keys (players (remove_player now i r)) \<and>
   ordered_keys (disconnected_players (remove_player now i r))"
  by (simp add: remove_player_def Let_def ordered_keys_erase ordered_keys_assign
        ordered_keys_Nil split: option.splits)

lemma keys_start_game:
  "ordered_keys (players r) \<Longrightarrow> ordered_keys (disconnected_players r) \<Longrightarrow>
   ordered_keys (players (start_game env r)) \<and>
   ordered_keys (disconnected_players (start_game env r))"
  by (simp add: ordered_keys_def start_game_def Let_def broadcast_fields map_fst_spawn_all)

lemma keys_set_player_ready:
  "ordered_keys (players r) \<Longrightarrow> ordered_keys (disconnected_players r) \<Longrightarrow>
   ordered_keys (players (set_player_ready env i b r)) \<and>
   ordered_keys (disconnected_players (set_player_ready env i b r))"
  by (simp add: ordered_keys_def set_player_ready_def start_game_def Let_def broadcast_fields
        map_fst_spawn_all map_fst_modify split: option.splits)

lemma keys_update:
  "ordered_keys (players r) \<Longrightarrow> ordered_keys (disconnected_players r) \<Longrightarrow>
   ordered_keys (players (update env dt now r)) \<and>
   ordered_keys (disconnected_players (update env dt now r))"
  by (simp add: ordered_keys_def update_def Let_def broadcast_fields comp_def
        split: option.splits)

lemma keys_step:
  assumes "ordered_keys (players r)" and "ordered_keys (disconnected_players r)"
  shows "ordered_keys (players (step env c r)) \<and>
         ordered_keys (disconnected_players (step env c r))"
proof (cases c)
  case (HandleChat i m)
  with assms show ?thesis
    by (simp add: handle_chat_def broadcast_fields split: option.splits)
next
  case (QueueInput i t a)
  with assms show ?thesis
    by (simp add: ordered_keys_def queue_input_def map_fst_modify split: option.splits)
next
  case (SetBroadcastFn fn)
  with assms show ?thesis
    by (simp add: set_broadcast_fn_def)
qed (simp_all add: assms keys_add_player keys_remove_player keys_start_game
       keys_set_player_ready keys_update)

lemma keys_run:
  "ordered_keys (players r) \<Longrightarrow> ordered_keys (disconnected_players r) \<Longrightarrow>
   ordered_keys (players (run env cs r)) \<and>
   ordered_keys (disconnected_players (run env cs r))"
proof (induction cs arbitrary: r)
  case Nil
  then show ?case by simp
next
  case (Cons c cs)
  from keys_step [OF Cons.prems, of env c]
  have "ordered_keys (players (step env c r))"
    and "ordered_keys (disconnected_players (step env c r))"
    by simp_all
  from Cons.IH [OF this] show ?case by simp
qed

lemma keys_ordered_reachable:
  "ordered_keys (players (run env cs (Room i mp))) \<and>
   ordered_keys (disconnected_players (run env cs (Room i mp)))"
  by (rule keys_run) (simp_all add: Room_def ordered_keys_def)

section \<open>Claims\<close>

text \<open>
  C9. In every state a room reaches from its creation, a grace timestamp implies that
  no player is connected. The two steps behind it: a successful \<open>add_player\<close> leaves no
  timestamp, and \<open>remove_player\<close> changes the timestamp only when it leaves the connected
  players empty.
\<close>

theorem empty_since_no_players:
  "(empty_since (run env cs (Room i mp)) \<noteq> None \<longrightarrow> players (run env cs (Room i mp)) = []) \<and>
   (fst (add_player env p r) \<longrightarrow> empty_since (snd (add_player env p r)) = None) \<and>
   (empty_since (remove_player now j r) \<noteq> empty_since r \<longrightarrow>
      players (remove_player now j r) = [])"
proof (intro conjI)
  have "grace_inv (run env cs (Room i mp))"
    by (rule grace_inv_reachable)
  then show "empty_since (run env cs (Room i mp)) \<noteq> None \<longrightarrow>
      players (run env cs (Room i mp)) = []"
    by (simp add: grace_inv_def)
next
  show "fst (add_player env p r) \<longrightarrow> empty_since (snd (add_player env p r)) = None"
    by (simp add: add_player_def Let_def split: option.splits)
next
  show "empty_since (remove_player now j r) \<noteq> empty_since r \<longrightarrow>
      players (remove_player now j r) = []"
    by (simp add: remove_player_def Let_def split: option.splits)
qed

theorem empty_since_no_players_witness:
  "empty_since (run example_env all_left (Room ''r1'' 2)) = Some 5000 \<and>
   players (run example_env all_left (Room ''r1'' 2)) = [] \<and>
   fst (add_player example_env alice (run example_env all_left (Room ''r1'' 2))) \<and>
   empty_since (snd (add_player example_env alice (run example_env all_left (Room ''r1'' 2))))
     = None \<and>
   empty_since (remove_player 5000 ''b'' (run example_env (butlast all_left) (Room ''r1'' 2)))
     \<noteq> empty_since (run example_env (butlast all_left) (Room ''r1'' 2)) \<and>
   players (remove_player 5000 ''b'' (run example_env (butlast all_left) (Room ''r1'' 2))) = []"
proof -
  have a: "empty_since (run example_env all_left (Room ''r1'' 2)) = Some 5000"
    by code_simp
  have b: "fst (add_player example_env alice (run example_env all_left (Room ''r1'' 2)))"
    by code_simp
  have c: "empty_since (remove_player 5000 ''b''
             (run example_env (butlast all_left) (Room ''r1'' 2)))
     \<noteq> empty_since (run example_env (butlast all_left) (Room ''r1'' 2))"
    by code_simp
  show ?thesis
    using a b c
      empty_since_no_players [of example_env all_left "''r1''" 2 alice
        "run example_env all_left (Room ''r1'' 2)" 5000 "''b''"]
      empty_since_no_players [of example_env all_left "''r1''" 2 alice
        "run example_env (butlast all_left) (Room ''r1'' 2)" 5000 "''b''"]
    by simp
qed

text \<open>
  C10. In every reachable state in which the room is \<open>FINISHED\<close>, no player is kept for
  reconnection, and every \<open>add_player\<close> call fails and leaves the room as it is.
\<close>

theorem finished_no_disconnected:
  "state (run env cs (Room i mp)) = FINISHED \<longrightarrow>
     disconnected_players (run env cs (Room i mp)) = [] \<and>
     add_player env p (run env cs (Room i mp)) = (False, run env cs (Room i mp))"
proof
  assume fin: "state (run env cs (Room i mp)) = FINISHED"
  have "grace_inv (run env cs (Room i mp))"
    by (rule grace_inv_reachable)
  with fin have d: "disconnected_players (run env cs (Room i mp)) = []"
    by (auto simp: grace_inv_def)
  from fin d have "add_player env p (run env cs (Room i mp)) = (False, run env cs (Room i mp))"
    by (simp add: add_player_def)
  with d show "disconnected_players (run env cs (Room i mp)) = [] \<and>
     add_player env p (run env cs (Room i mp)) = (False, run env cs (Room i mp))"
    by simp
qed

theorem finished_no_disconnected_witness:
  "state (run example_env grace_expired (Room ''r1'' 2)) = FINISHED \<and>
   disconnected_players (run example_env grace_expired (Room ''r1'' 2)) = [] \<and>
   add_player example_env alice (run example_env grace_expired (Room ''r1'' 2))
     = (False, run example_env grace_expired (Room ''r1'' 2))"
proof -
  have a: "state (run example_env grace_expired (Room ''r1'' 2)) = FINISHED"
    by code_simp
  show ?thesis
    using a finished_no_disconnected [of example_env grace_expired "''r1''" 2 alice]
    by simp
qed

text \<open>
  C2, as stated, fails: after the grace period has expired, \<open>update\<close> has made the room
  \<open>FINISHED\<close> and has emptied \<open>disconnected_players\<close>, and \<open>empty_since\<close> is still set.
\<close>

theorem empty_since_iff_counterexample:
  "empty_since (run example_env grace_expired (Room ''r1'' 2)) = Some 5000 \<and>
   players (run example_env grace_expired (Room ''r1'' 2)) = [] \<and>
   state (run example_env grace_expired (Room ''r1'' 2)) = FINISHED \<and>
   disconnected_players (run example_env grace_expired (Room ''r1'' 2)) = [] \<and>
   \<not> (empty_since (run example_env grace_expired (Room ''r1'' 2)) \<noteq> None \<longleftrightarrow>
        players (run example_env grace_expired (Room ''r1'' 2)) = [] \<and>
        state (run example_env grace_expired (Room ''r1'' 2)) = PLAYING \<and>
        disconnected_players (run example_env grace_expired (Room ''r1'' 2)) \<noteq> [])"
  by code_simp

text \<open>
  C2, amended. In every reachable state: if \<open>empty_since\<close> is set, no player is connected
  and the room is either \<open>PLAYING\<close> with a non-empty \<open>disconnected_players\<close> or \<open>FINISHED\<close>
  with an empty one; if no player is connected, the room is \<open>PLAYING\<close> and
  \<open>disconnected_players\<close> is non-empty, then \<open>empty_since\<close> is set; and every successful
  \<open>add_player\<close> clears \<open>empty_since\<close>.
\<close>

theorem empty_since_characterised:
  "(empty_since (run env cs (Room i mp)) \<noteq> None \<longrightarrow>
      players (run env cs (Room i mp)) = [] \<and>
      (state (run env cs (Room i mp)) = PLAYING \<and>
         disconnected_players (run env cs (Room i mp)) \<noteq> [] \<or>
       state (run env cs (Room i mp)) = FINISHED \<and>
         disconnected_players (run env cs (Room i mp)) = [])) \<and>
   (players (run env cs (Room i mp)) = [] \<and> state (run env cs (Room i mp)) = PLAYING \<and>
      disconnected_players (run env cs (Room i mp)) \<noteq> [] \<longrightarrow>
        empty_since (run env cs (Room i mp)) \<noteq> None) \<and>
   (fst (add_player env p r) \<longrightarrow> empty_since (snd (add_player env p r)) = None)"
proof -
  have "grace_inv (run env cs (Room i mp))"
    by (rule grace_inv_reachable)
  moreover have "fst (add_player env p r) \<longrightarrow> empty_since (snd (add_player env p r)) = None"
    by (simp add: add_player_def Let_def split: option.splits)
  ultimately show ?thesis
    unfolding grace_inv_def by blast
qed

theorem empty_since_characterised_witness:
  "empty_since (run example_env all_left (Room ''r1'' 2)) = Some 5000 \<and>
   players (run example_env all_left (Room ''r1'' 2)) = [] \<and>
   state (run example_env all_left (Room ''r1'' 2)) = PLAYING \<and>
   disconnected_players (run example_env all_left (Room ''r1'' 2)) \<noteq> [] \<and>
   fst (add_player example_env bob (run example_env all_left (Room ''r1'' 2))) \<and>
   empty_since (snd (add_player example_env bob (run example_env all_left (Room ''r1'' 2))))
     = None"
proof -
  have a: "empty_since (run example_env all_left (Room ''r1'' 2)) = Some 5000"
    by code_simp
  have b: "state (run example_env all_left (Room ''r1'' 2)) = PLAYING"
    by code_simp
  have c: "fst (add_player example_env bob (run example_env all_left (Room ''r1'' 2)))"
    by code_simp
  show ?thesis
    using a b c
      empty_since_characterised [of example_env all_left "''r1''" 2 bob
        "run example_env all_left (Room ''r1'' 2)"]
    by auto
qed

text \<open>
  C6. When \<open>update\<close> runs on a \<open>PLAYING\<close> room whose grace timestamp is at least
  \<open>GRACE_SECONDS\<close> old, the room becomes \<open>FINISHED\<close>, \<open>disconnected_players\<close> becomes empty,
  and nothing else changes: the tick counter keeps its value and nothing is delivered.
\<close>

theorem update_grace_expiry:
  "state r = PLAYING \<Longrightarrow> empty_since r = Some t \<Longrightarrow>
   GRACE_SECONDS env \<le> elapsed_seconds env now t \<Longrightarrow>
     update env dt now r = r\<lparr>state := FINISHED, disconnected_players := []\<rparr> \<and>
     state (update env dt now r) = FINISHED \<and>
     disconnected_players (update env dt now r) = [] \<and>
     tick (update env dt now r) = tick r \<and>
     delivered (update env dt now r) = delivered r"
  by (simp add: update_def)

theorem update_grace_expiry_witness:
  "state (run example_env all_left (Room ''r1'' 2)) = PLAYING \<and>
   empty_since (run example_env all_left (Room ''r1'' 2)) = Some 5000 \<and>
   GRACE_SECONDS example_env \<le> elapsed_seconds example_env 35000 5000 \<and>
   state (update example_env 0 35000 (run example_env all_left (Room ''r1'' 2))) = FINISHED \<and>
   disconnected_players (update example_env 0 35000 (run example_env all_left (Room ''r1'' 2)))
     = [] \<and>
   tick (update example_env 0 35000 (run example_env all_left (Room ''r1'' 2))) = 1 \<and>
   tick (run example_env all_left (Room ''r1'' 2)) = 1 \<and>
   disconnected_players (run example_env all_left (Room ''r1'' 2)) \<noteq> []"
proof -
  have a: "state (run example_env all_left (Room ''r1'' 2)) = PLAYING"
    by code_simp
  have b: "empty_since (run example_env all_left (Room ''r1'' 2)) = Some 5000"
    by code_simp
  have c: "GRACE_SECONDS example_env \<le> elapsed_seconds example_env 35000 5000"
    by code_simp
  have d: "tick (run example_env all_left (Room ''r1'' 2)) = 1"
    by code_simp
  have e: "disconnected_players (run example_env all_left (Room ''r1'' 2)) \<noteq> []"
    by code_simp
  show ?thesis
    using a b c d e update_grace_expiry [OF a b c, of 0]
    by simp
qed




text \<open>
  C3, as stated, fails: \<open>add_player\<close> checks the capacity on a fresh join only. In a
  room for two, a late joiner takes the place of a disconnected player, who then
  reconnects as a third connected player.
\<close>

theorem capacity_counterexample:
  "player_count (run example_env late_join_then_reconnect (Room ''r1'' 2)) = 3 \<and>
   max_players (run example_env late_join_then_reconnect (Room ''r1'' 2)) = 2 \<and>
   \<not> player_count (run example_env late_join_then_reconnect (Room ''r1'' 2))
       \<le> max_players (run example_env late_join_then_reconnect (Room ''r1'' 2))"
  by code_simp

text \<open>
  C3, amended. In a room created with a capacity of at least 0, along every sequence of
  operations none of which is a reconnect into a room that is already full, the number
  of connected players is at most \<open>max_players\<close>, which keeps the value given at
  creation. Fresh joins and reconnects into a room with a free place are covered.
\<close>

theorem capacity_without_full_reconnect:
  "0 \<le> mp \<Longrightarrow> no_full_reconnect env cs (Room i mp) \<Longrightarrow>
   player_count (run env cs (Room i mp)) \<le> max_players (run env cs (Room i mp)) \<and>
   max_players (run env cs (Room i mp)) = mp"
  using capacity_run [of env cs "Room i mp"]
  by (simp add: player_count_def Room_def)

theorem capacity_without_full_reconnect_witness:
  "(0::int) \<le> 2 \<and>
   no_full_reconnect example_env leave_and_return (Room ''r1'' 2) \<and>
   has_player (run example_env leave_and_return (Room ''r1'' 2)) ''a'' \<and>
   disconnected_players (run example_env leave_and_return (Room ''r1'' 2)) = [] \<and>
   player_count (run example_env leave_and_return (Room ''r1'' 2)) = 2 \<and>
   max_players (run example_env leave_and_return (Room ''r1'' 2)) = 2"
proof -
  have a: "(0::int) \<le> 2" by simp
  have b: "no_full_reconnect example_env leave_and_return (Room ''r1'' 2)"
    by code_simp
  have c: "player_count (run example_env leave_and_return (Room ''r1'' 2)) = 2"
    by code_simp
  have d: "has_player (run example_env leave_and_return (Room ''r1'' 2)) ''a'' \<and>
      disconnected_players (run example_env leave_and_return (Room ''r1'' 2)) = []"
    by code_simp
  show ?thesis
    using b c d capacity_without_full_reconnect [OF a b]
    by simp
qed

text \<open>
  C4. A room with at most one connected player is never all ready, and
  \<open>set_player_ready\<close> on a room with exactly one connected player leaves the state as it
  is and delivers no \<open>game_start\<close>. In a \<open>WAITING\<close> room with exactly two connected players,
  a \<open>set_player_ready(i, true)\<close> after which both are ready makes the room \<open>PLAYING\<close> and
  hands one \<open>game_start\<close> payload to the delivery function once for each connected player
  (to nobody when no delivery function is set); a further \<open>set_player_ready\<close> leaves the
  room \<open>PLAYING\<close> and delivers no other \<open>game_start\<close>.
\<close>

theorem ready_quorum:
  "(length (players r) \<le> 1 \<longrightarrow> \<not> all_ready r) \<and>
   (length (players r) = 1 \<longrightarrow>
      state (set_player_ready env i b r) = state r \<and>
      game_starts (set_player_ready env i b r) = game_starts r) \<and>
   (state r = WAITING \<and> length (players r) = 2 \<and> has_player r i \<and>
    list_all (\<lambda>e. fst e = i \<or> ready (snd e)) (players r) \<longrightarrow>
      state (set_player_ready env i True r) = PLAYING \<and>
      game_starts (set_player_ready env i True r) =
        game_starts r @
        (if broadcast_fn r
         then map (\<lambda>k. (k, GameStart 1 (MAP_WIDTH env, MAP_HEIGHT env, GROUND_Y env)
                    (map (\<lambda>e. (fst e, x_p (snd e), y_p (snd e)))
                       (players (set_player_ready env i True r)))))
                (map fst (players r))
         else []) \<and>
      state (set_player_ready env j c (set_player_ready env i True r)) = PLAYING \<and>
      game_starts (set_player_ready env j c (set_player_ready env i True r)) =
        game_starts (set_player_ready env i True r))"
proof (intro conjI impI)
  assume "length (players r) \<le> 1"
  then show "\<not> all_ready r" by (rule all_ready_small)
next
  assume "length (players r) = 1"
  then have "\<not> (state r = WAITING \<and> 2 \<le> length (players r))" by simp
  from set_player_ready_no_start [OF this]
  show "state (set_player_ready env i b r) = state r"
    and "game_starts (set_player_ready env i b r) = game_starts r"
    by simp_all
next
  assume h: "state r = WAITING \<and> length (players r) = 2 \<and> has_player r i \<and>
    list_all (\<lambda>e. fst e = i \<or> ready (snd e)) (players r)"
  then have w: "state r = WAITING" and two: "length (players r) = 2"
    and conn: "has_player r i"
    and rest: "list_all (\<lambda>e. fst e = i \<or> ready (snd e)) (players r)"
    by simp_all
  show st: "state (set_player_ready env i True r) = PLAYING"
    by (rule set_player_ready_starts(1) [OF w two conn rest])
  show "game_starts (set_player_ready env i True r) =
        game_starts r @
        (if broadcast_fn r
         then map (\<lambda>k. (k, GameStart 1 (MAP_WIDTH env, MAP_HEIGHT env, GROUND_Y env)
                    (map (\<lambda>e. (fst e, x_p (snd e), y_p (snd e)))
                       (players (set_player_ready env i True r)))))
                (map fst (players r))
         else [])"
    using game_starts_append [OF set_player_ready_starts(3) [OF w two conn rest, of env]]
    by (simp add: filter_map comp_def)
  from st have "\<not> (state (set_player_ready env i True r) = WAITING \<and>
      2 \<le> length (players (set_player_ready env i True r)))"
    by simp
  from set_player_ready_no_start [OF this, of env j c] st
  show "state (set_player_ready env j c (set_player_ready env i True r)) = PLAYING"
    and "game_starts (set_player_ready env j c (set_player_ready env i True r)) =
        game_starts (set_player_ready env i True r)"
    by simp_all
qed

theorem ready_quorum_witness:
  "length (players (run example_env alone_in_lobby (Room ''r1'' 2))) = 1 \<and>
   \<not> all_ready (run example_env alone_in_lobby (Room ''r1'' 2)) \<and>
   state (set_player_ready example_env ''a'' True (run example_env alone_in_lobby (Room ''r1'' 2)))
     = WAITING \<and>
   game_starts (set_player_ready example_env ''a'' True
      (run example_env alone_in_lobby (Room ''r1'' 2))) = [] \<and>
   state (run example_env one_ready_of_two (Room ''r1'' 2)) = WAITING \<and>
   length (players (run example_env one_ready_of_two (Room ''r1'' 2))) = 2 \<and>
   has_player (run example_env one_ready_of_two (Room ''r1'' 2)) ''b'' \<and>
   state (set_player_ready example_env ''b'' True
      (run example_env one_ready_of_two (Room ''r1'' 2))) = PLAYING \<and>
   game_starts (set_player_ready example_env ''b'' True
      (run example_env one_ready_of_two (Room ''r1'' 2))) =
     [(''a'', GameStart 1 (100, 50, 40) [(''a'', 0, 0), (''b'', 10, 0)]),
      (''b'', GameStart 1 (100, 50, 40) [(''a'', 0, 0), (''b'', 10, 0)])] \<and>
   game_starts (set_player_ready example_env ''a'' True
      (set_player_ready example_env ''b'' True
        (run example_env one_ready_of_two (Room ''r1'' 2)))) =
     [(''a'', GameStart 1 (100, 50, 40) [(''a'', 0, 0), (''b'', 10, 0)]),
      (''b'', GameStart 1 (100, 50, 40) [(''a'', 0, 0), (''b'', 10, 0)])]"
proof -
  have a: "length (players (run example_env alone_in_lobby (Room ''r1'' 2))) = 1"
    by code_simp
  have b: "state (run example_env alone_in_lobby (Room ''r1'' 2)) = WAITING"
    by code_simp
  have c: "game_starts (run example_env alone_in_lobby (Room ''r1'' 2)) = []"
    by code_simp
  have d: "state (run example_env one_ready_of_two (Room ''r1'' 2)) = WAITING \<and>
      length (players (run example_env one_ready_of_two (Room ''r1'' 2))) = 2 \<and>
      has_player (run example_env one_ready_of_two (Room ''r1'' 2)) ''b'' \<and>
      list_all (\<lambda>e. fst e = ''b'' \<or> ready (snd e))
        (players (run example_env one_ready_of_two (Room ''r1'' 2)))"
    by code_simp
  have e: "game_starts (set_player_ready example_env ''b'' True
      (run example_env one_ready_of_two (Room ''r1'' 2))) =
     [(''a'', GameStart 1 (100, 50, 40) [(''a'', 0, 0), (''b'', 10, 0)]),
      (''b'', GameStart 1 (100, 50, 40) [(''a'', 0, 0), (''b'', 10, 0)])]"
    by code_simp
  show ?thesis
    using a b c d e
      ready_quorum [of "run example_env alone_in_lobby (Room ''r1'' 2)" example_env
        "''a''" True "''a''" True]
      ready_quorum [of "run example_env one_ready_of_two (Room ''r1'' 2)" example_env
        "''b''" True "''a''" True]
    by simp
qed

text \<open>
  C1, as stated, fails: \<open>start_game\<close> looks at the state only. Called on a waiting room
  with a single player who is not ready, it starts the game.
\<close>

theorem start_game_quorum_counterexample:
  "state (run example_env alone_in_lobby (Room ''r1'' 2)) = WAITING \<and>
   player_count (run example_env alone_in_lobby (Room ''r1'' 2)) = 1 \<and>
   \<not> all_ready (run example_env alone_in_lobby (Room ''r1'' 2)) \<and>
   state (start_game example_env (run example_env alone_in_lobby (Room ''r1'' 2))) = PLAYING"
  by code_simp

text \<open>
  C1, amended. \<open>start_game\<close> is guarded by the state alone: on a room that is not
  \<open>WAITING\<close> it changes nothing, and on a \<open>WAITING\<close> room it makes the state \<open>PLAYING\<close>,
  whatever the ready flags. The ready quorum guards the automatic start: when
  \<open>set_player_ready\<close> changes the state, the room was \<open>WAITING\<close>, is now \<open>PLAYING\<close>, and
  with the flag set it had at least two connected players, all of them ready.
\<close>

theorem start_game_guard:
  "(state r \<noteq> WAITING \<longrightarrow> start_game env r = r) \<and>
   (state r = WAITING \<longrightarrow> state (start_game env r) = PLAYING) \<and>
   (state (set_player_ready env i b r) \<noteq> state r \<longrightarrow>
      state r = WAITING \<and> state (set_player_ready env i b r) = PLAYING \<and>
      2 \<le> player_count r \<and>
      all_ready (r\<lparr>players := modify i (\<lambda>p. p\<lparr>ready := b\<rparr>) (players r)\<rparr>))"
proof (intro conjI impI)
  assume "state r \<noteq> WAITING"
  then show "start_game env r = r" by (rule start_game_not_WAITING)
next
  assume "state r = WAITING"
  then show "state (start_game env r) = PLAYING" by (simp add: state_start_game)
next
  assume ch: "state (set_player_ready env i b r) \<noteq> state r"
  let ?r1 = "r\<lparr>players := modify i (\<lambda>p. p\<lparr>ready := b\<rparr>) (players r)\<rparr>"
  let ?r2 = "broadcast (PlayerReadyState i b) ?r1"
  from ch obtain p where found: "map_of (players r) i = Some p"
    by (cases "map_of (players r) i") (auto simp: set_player_ready_def)
  have go: "all_ready ?r2 \<and> state ?r2 = WAITING"
  proof (rule ccontr)
    assume "\<not> (all_ready ?r2 \<and> state ?r2 = WAITING)"
    with found have "set_player_ready env i b r = ?r2"
      by (auto simp: set_player_ready_def Let_def)
    with ch show False by (simp add: broadcast_fields)
  qed
  then show w: "state r = WAITING" by (simp add: broadcast_fields)
  from found go have "set_player_ready env i b r = start_game env ?r2"
    by (simp add: set_player_ready_def Let_def)
  with go show "state (set_player_ready env i b r) = PLAYING"
    by (simp add: state_start_game)
  have "all_ready ?r2 = all_ready ?r1"
    by (simp add: all_ready_def broadcast_fields)
  with go show ar: "all_ready ?r1"
    by simp
  have "length (players r) < 2 \<Longrightarrow> \<not> all_ready ?r1"
    by (simp add: all_ready_def length_modify)
  with ar have "\<not> length (players r) < 2"
    by blast
  then show "2 \<le> player_count r"
    by (simp add: player_count_def)
qed

theorem start_game_guard_witness:
  "state (run example_env lobby_to_game (Room ''r1'' 2)) = PLAYING \<and>
   start_game example_env (run example_env lobby_to_game (Room ''r1'' 2))
     = run example_env lobby_to_game (Room ''r1'' 2) \<and>
   state (run example_env one_ready_of_two (Room ''r1'' 2)) = WAITING \<and>
   state (start_game example_env (run example_env one_ready_of_two (Room ''r1'' 2))) = PLAYING \<and>
   state (set_player_ready example_env ''b'' True
      (run example_env one_ready_of_two (Room ''r1'' 2))) = PLAYING \<and>
   2 \<le> player_count (run example_env one_ready_of_two (Room ''r1'' 2)) \<and>
   all_ready ((run example_env one_ready_of_two (Room ''r1'' 2))
      \<lparr>players := modify ''b'' (\<lambda>p. p\<lparr>ready := True\<rparr>)
         (players (run example_env one_ready_of_two (Room ''r1'' 2)))\<rparr>)"
proof -
  have a: "state (run example_env lobby_to_game (Room ''r1'' 2)) = PLAYING"
    by code_simp
  have b: "state (run example_env one_ready_of_two (Room ''r1'' 2)) = WAITING"
    by code_simp
  have c: "state (set_player_ready example_env ''b'' True
      (run example_env one_ready_of_two (Room ''r1'' 2))) = PLAYING"
    by code_simp
  show ?thesis
    using a b c
      start_game_guard [of "run example_env lobby_to_game (Room ''r1'' 2)" example_env
        "''b''" True]
      start_game_guard [of "run example_env one_ready_of_two (Room ''r1'' 2)" example_env
        "''b''" True]
    by simp
qed

text \<open>
  C8, as stated, fails: the chat event carries the sender's \<open>name\<close>, not the
  \<open>display_name\<close>.
\<close>

theorem chat_display_name_counterexample:
  "display_name alice = ''Alice A.'' \<and>
   delivered (handle_chat ''a'' ''hi'' (run example_env alone_in_lobby (Room ''r1'' 2)))
     = [(''a'', ChatMessage ''a'' ''alice'' ''hi'')] \<and>
   delivered (handle_chat ''a'' ''hi'' (run example_env alone_in_lobby (Room ''r1'' 2)))
     \<noteq> [(''a'', ChatMessage ''a'' (display_name alice) ''hi'')]"
  by code_simp

text \<open>
  C8, amended. \<open>handle_chat\<close> changes nothing when the sender is not connected; for a
  connected sender it is one broadcast of a chat event with the sender's id, the
  sender's \<open>name\<close> and the message text as given: one delivery to each connected player
  when a delivery function is set.
\<close>

theorem handle_chat_sends_name:
  "(get_player r sender_id = None \<longrightarrow> handle_chat sender_id message r = r) \<and>
   (get_player r sender_id = Some p \<longrightarrow>
      handle_chat sender_id message r = broadcast (ChatMessage sender_id (name p) message) r \<and>
      delivered (handle_chat sender_id message r) =
        delivered r @
        (if broadcast_fn r
         then map (\<lambda>k. (k, ChatMessage sender_id (name p) message)) (map fst (players r))
         else []) \<and>
      players (handle_chat sender_id message r) = players r \<and>
      state (handle_chat sender_id message r) = state r)"
  by (simp add: handle_chat_def broadcast_delivered broadcast_fields)

theorem handle_chat_sends_name_witness:
  "get_player (run example_env lobby_to_game (Room ''r1'' 2)) ''zed'' = None \<and>
   handle_chat ''zed'' ''hi'' (run example_env lobby_to_game (Room ''r1'' 2))
     = run example_env lobby_to_game (Room ''r1'' 2) \<and>
   name (the (get_player (run example_env alone_in_lobby (Room ''r1'' 2)) ''a'')) = ''alice'' \<and>
   delivered (handle_chat ''a'' ''hi'' (run example_env alone_in_lobby (Room ''r1'' 2)))
     = [(''a'', ChatMessage ''a'' ''alice'' ''hi'')]"
proof -
  have a: "get_player (run example_env lobby_to_game (Room ''r1'' 2)) ''zed'' = None"
    by code_simp
  have b: "get_player (run example_env alone_in_lobby (Room ''r1'' 2)) ''a'' = Some alice"
    by code_simp
  have c: "delivered (run example_env alone_in_lobby (Room ''r1'' 2)) = [] \<and>
     broadcast_fn (run example_env alone_in_lobby (Room ''r1'' 2)) \<and>
     map fst (players (run example_env alone_in_lobby (Room ''r1'' 2))) = [''a''] \<and>
     name alice = ''alice''"
    by code_simp
  have d: "handle_chat ''zed'' ''hi'' (run example_env lobby_to_game (Room ''r1'' 2))
      = run example_env lobby_to_game (Room ''r1'' 2)"
    using a
      handle_chat_sends_name [of "run example_env lobby_to_game (Room ''r1'' 2)" "''zed''"
        "''hi''" alice]
    by blast
  have e: "delivered (handle_chat ''a'' ''hi'' (run example_env alone_in_lobby (Room ''r1'' 2)))
      = delivered (run example_env alone_in_lobby (Room ''r1'' 2)) @
        (if broadcast_fn (run example_env alone_in_lobby (Room ''r1'' 2))
         then map (\<lambda>k. (k, ChatMessage ''a'' (name alice) ''hi''))
                (map fst (players (run example_env alone_in_lobby (Room ''r1'' 2))))
         else [])"
    using b
      handle_chat_sends_name [of "run example_env alone_in_lobby (Room ''r1'' 2)" "''a''"
        "''hi''" alice]
    by blast
  show ?thesis
    using a b c d e by simp
qed

text \<open>
  C5. When the id of the joining player is found in \<open>disconnected_players\<close> and is not
  connected, and the record found is stored under its own id (as it is in every
  reachable state, by \<open>stored_under_own_id\<close>), then \<open>add_player\<close> succeeds; afterwards the
  record connected under the id is the stored one with \<open>name\<close> and \<open>display_name\<close> taken
  from the call, so position, ready flag, pending actions and last input tick are the
  stored ones; the other connected players are as before and one more player is
  connected; the id is no longer in \<open>disconnected_players\<close>, whose other entries are as
  before; and the state of the room is unchanged.
\<close>

theorem add_player_reconnect:
  assumes "map_of (disconnected_players r) (id_p pl) = Some q"
    and "\<not> has_player r (id_p pl)"
    and "id_p q = id_p pl"
  shows "fst (add_player env pl r) \<and>
    get_player (snd (add_player env pl r)) (id_p pl)
      = Some (q\<lparr>name := name pl, display_name := display_name pl\<rparr>) \<and>
    (\<forall>k. k \<noteq> id_p pl \<longrightarrow>
       get_player (snd (add_player env pl r)) k = get_player r k) \<and>
    length (players (snd (add_player env pl r))) = Suc (length (players r)) \<and>
    x_p (q\<lparr>name := name pl, display_name := display_name pl\<rparr>) = x_p q \<and>
    y_p (q\<lparr>name := name pl, display_name := display_name pl\<rparr>) = y_p q \<and>
    ready (q\<lparr>name := name pl, display_name := display_name pl\<rparr>) = ready q \<and>
    pending_actions (q\<lparr>name := name pl, display_name := display_name pl\<rparr>)
      = pending_actions q \<and>
    last_input_tick (q\<lparr>name := name pl, display_name := display_name pl\<rparr>)
      = last_input_tick q \<and>
    map_of (disconnected_players (snd (add_player env pl r))) (id_p pl) = None \<and>
    (\<forall>k. k \<noteq> id_p pl \<longrightarrow>
       map_of (disconnected_players (snd (add_player env pl r))) k
         = map_of (disconnected_players r) k) \<and>
    state (snd (add_player env pl r)) = state r"
proof -
  let ?p = "q\<lparr>name := name pl, display_name := display_name pl\<rparr>"
  from assms(2) have absent: "map_of (players r) (id_p pl) = None"
    by (simp add: has_player_def)
  have eq: "add_player env pl r =
      (True, r\<lparr>disconnected_players := erase (id_p pl) (disconnected_players r),
               players := insort_key fst (id_p pl, ?p) (players r), empty_since := None\<rparr>)"
    using assms absent by (simp add: add_player_def Let_def emplace_def)
  have gone: "map_of (erase (id_p pl) (disconnected_players r)) (id_p pl) = None"
    by (auto simp: erase_def map_of_eq_None_iff)
  have kept: "k \<noteq> id_p pl \<Longrightarrow>
      map_of (erase (id_p pl) (disconnected_players r)) k = map_of (disconnected_players r) k"
    for k
    by (rule map_of_erase_other)
  show ?thesis
    unfolding eq using gone kept
    by (simp add: get_player_def map_of_insort_key)
qed

theorem add_player_reconnect_witness:
  "map_of (disconnected_players (run example_env bob_disconnected (Room ''r1'' 2))) ''b''
     = Some \<lparr> id_p = ''b'', name = ''bob'', display_name = ''Bob B.'', ready = True,
              x_p = 10, y_p = 0, pending_actions = [''jump''], last_input_tick = 7 \<rparr> \<and>
   \<not> has_player (run example_env bob_disconnected (Room ''r1'' 2)) ''b'' \<and>
   fst (add_player example_env bob_renamed (run example_env bob_disconnected (Room ''r1'' 2))) \<and>
   get_player (snd (add_player example_env bob_renamed
       (run example_env bob_disconnected (Room ''r1'' 2)))) ''b''
     = Some \<lparr> id_p = ''b'', name = ''bobby'', display_name = ''Bobby B.'', ready = True,
              x_p = 10, y_p = 0, pending_actions = [''jump''], last_input_tick = 7 \<rparr> \<and>
   map_of (disconnected_players (snd (add_player example_env bob_renamed
       (run example_env bob_disconnected (Room ''r1'' 2))))) ''b'' = None"
proof -
  have a: "map_of (disconnected_players (run example_env bob_disconnected (Room ''r1'' 2)))
        (id_p bob_renamed)
     = Some \<lparr> id_p = ''b'', name = ''bob'', display_name = ''Bob B.'', ready = True,
              x_p = 10, y_p = 0, pending_actions = [''jump''], last_input_tick = 7 \<rparr>"
    by code_simp
  have b: "\<not> has_player (run example_env bob_disconnected (Room ''r1'' 2)) (id_p bob_renamed)"
    by code_simp
  have c: "id_p \<lparr> id_p = ''b'', name = ''bob'', display_name = ''Bob B.'', ready = True,
              x_p = 10::int, y_p = 0::int, pending_actions = [''jump''], last_input_tick = 7 \<rparr>
      = id_p bob_renamed"
    by code_simp
  have d: "id_p bob_renamed = ''b'' \<and> name bob_renamed = ''bobby'' \<and>
      display_name bob_renamed = ''Bobby B.''"
    by code_simp
  show ?thesis
    using a b d add_player_reconnect [OF a b c, of example_env]
    by simp
qed

end
